theory Spec2Isabelle
  imports Complex_Main "HOL-Library.List_Lexorder"
begin

section \<open>Data model of the ordering application\<close>

text \<open>
  The component \<^verbatim>\<open>App\<close> keeps its session in React state hooks. Each hook becomes a field
  of the record \<open>AppState\<close>, each handler a function from the state it is invoked on to
  the state after its updates have been committed.

  JavaScript values are modelled as follows.
  \<^item> A \<^verbatim>\<open>string | null\<close> (or an optional JSON member) is a \<open>string option\<close>. The
    operators \<^verbatim>\<open>||\<close> and \<^verbatim>\<open>if (s)\<close> treat \<^verbatim>\<open>null\<close>, \<^verbatim>\<open>undefined\<close> and the empty string
    alike; \<open>truthy\<close>, \<open>orElse\<close> and \<open>orNull\<close> spell that out.
  \<^item> Quantities are \<open>int\<close>: every call site passes \<^verbatim>\<open>1\<close> or a stored quantity plus or
    minus one.
  \<^item> A price amount is an IEEE double and is held as the rational number that double
    stands for. What \<^verbatim>\<open>+\<close> and \<^verbatim>\<open>*\<close> make of two doubles is rounded by the platform; the
    two operations are the fields of the record \<open>Arith\<close> that every function doing
    arithmetic on amounts takes, and no law of arithmetic is assumed of them.
  \<^item> A \<^verbatim>\<open>Map\<close> is an association list in insertion order, which is the order
    \<^verbatim>\<open>forEach\<close> and \<^verbatim>\<open>values()\<close> visit: \<^verbatim>\<open>set\<close> on a present key replaces the value in
    place, on an absent key appends; \<^verbatim>\<open>delete\<close> drops the key.
  Record fields that several source types share (\<^verbatim>\<open>id\<close>, \<^verbatim>\<open>name\<close>, ...) carry the type's
  name as a prefix.
\<close>

record Store =
  store_id :: string
  store_slug :: string
  store_name :: string
  store_description :: string
  store_image :: string
  store_imageAlt :: string

record Product =
  product_id :: string
  product_slug :: string
  product_name :: string
  product_description :: string
  product_image :: string
  product_imageAlt :: string
  variantId :: "string option"
  variantName :: string
  variantSku :: string
  quantityAvailable :: "int option"
  priceAmount :: "rat option"
  priceCurrency :: "string option"

record Category =
  category_id :: string
  category_name :: string
  products :: "Product list"

record CartEntry =
  product :: Product
  quantity :: int

text \<open>\<^verbatim>\<open>CartSummary\<close>; the nested \<^verbatim>\<open>total: {amount, currency}\<close> is flattened.\<close>

record CartSummary =
  items :: int
  total_amount :: rat
  total_currency :: string

record Toast =
  message :: string
  visible :: bool

record AppState =
  selectedStore :: "Store option"
  selectedCategoryId :: "string option"
  productsByCategory :: "(string \<times> Category) list"
  productEmptyMessage :: string
  cart :: "(string \<times> CartEntry) list"
  currency :: "string option"
  orderSheetVisible :: bool
  isSubmitting :: bool
  toast :: Toast

subsection \<open>JavaScript truthiness on nullable strings\<close>

definition truthy :: "string option \<Rightarrow> bool" where
  "truthy s = (case s of None \<Rightarrow> False | Some t \<Rightarrow> t \<noteq> [])"

definition orElse :: "string option \<Rightarrow> string \<Rightarrow> string" where
  "orElse s d = (case s of None \<Rightarrow> d | Some t \<Rightarrow> if t = [] then d else t)"

definition orNull :: "string option \<Rightarrow> string option" where
  "orNull s = (if truthy s then s else None)"

subsection \<open>The built-in \<^verbatim>\<open>Map\<close>\<close>

fun Map_set :: "'k \<Rightarrow> 'v \<Rightarrow> ('k \<times> 'v) list \<Rightarrow> ('k \<times> 'v) list" where
  "Map_set k v [] = [(k, v)]"
| "Map_set k v ((k', v') # m) =
     (if k' = k then (k, v) # m else (k', v') # Map_set k v m)"

fun Map_delete :: "'k \<Rightarrow> ('k \<times> 'v) list \<Rightarrow> ('k \<times> 'v) list" where
  "Map_delete k [] = []"
| "Map_delete k ((k', v') # m) =
     (if k' = k then Map_delete k m else (k', v') # Map_delete k m)"

fun Map_get :: "('k \<times> 'v) list \<Rightarrow> 'k \<Rightarrow> 'v option" where
  "Map_get [] k = None"
| "Map_get ((k', v') # m) k = (if k' = k then Some v' else Map_get m k)"

definition Map_has :: "('k \<times> 'v) list \<Rightarrow> 'k \<Rightarrow> bool" where
  "Map_has m k = (Map_get m k \<noteq> None)"

section \<open>Notification channel\<close>

text \<open>
  \<^verbatim>\<open>showToast\<close> replaces the single toast slot and makes it visible. The timer that hides
  it again after \<^verbatim>\<open>duration\<close> milliseconds is real time and is not part of the model.
\<close>

definition showToast :: "string \<Rightarrow> AppState \<Rightarrow> AppState" where
  "showToast msg st = st\<lparr>toast := \<lparr>message = msg, visible = True\<rparr>\<rparr>"

section \<open>Cart store\<close>

definition resetCart :: "AppState \<Rightarrow> AppState" where
  "resetCart st = st\<lparr>cart := [], currency := None\<rparr>"

definition updateCart :: "Product \<Rightarrow> int \<Rightarrow> AppState \<Rightarrow> AppState" where
  "updateCart p nextQuantity st =
     (let next =
            (if nextQuantity \<le> 0 then Map_delete (product_id p) (cart st)
             else Map_set (product_id p) \<lparr>product = p, quantity = nextQuantity\<rparr> (cart st));
          st1 = st\<lparr>cart := next\<rparr>
      in if truthy (priceCurrency p) then st1\<lparr>currency := priceCurrency p\<rparr> else st1)"

text \<open>
  The operators \<^verbatim>\<open>+\<close> and \<^verbatim>\<open>*\<close> of JavaScript on two doubles, each given and returned
  as the number it stands for.
\<close>

record Arith =
  addNumbers :: "rat \<Rightarrow> rat \<Rightarrow> rat"
  mulNumbers :: "rat \<Rightarrow> rat \<Rightarrow> rat"

text \<open>
  The body of the \<^verbatim>\<open>cart.forEach\<close> callback of \<^verbatim>\<open>summarizeCart\<close>, on the three local
  variables \<^verbatim>\<open>items\<close>, \<^verbatim>\<open>amount\<close> and \<^verbatim>\<open>nextCurrency\<close>. The item count adds whole
  numbers, which doubles do exactly.
\<close>

fun summarizeStep :: "Arith \<Rightarrow> int \<times> rat \<times> string option \<Rightarrow> CartEntry \<Rightarrow> int \<times> rat \<times> string option" where
  "summarizeStep ar (n, amount, nextCurrency) e =
     (case priceAmount (product e) of
        None \<Rightarrow> (n, amount, nextCurrency)
      | Some a \<Rightarrow>
          (n + quantity e,
           addNumbers ar amount (mulNumbers ar a (of_int (quantity e))),
           (if truthy (priceCurrency (product e)) then priceCurrency (product e)
            else nextCurrency)))"

fun summarizeLoop :: "Arith \<Rightarrow> int \<times> rat \<times> string option \<Rightarrow> (string \<times> CartEntry) list \<Rightarrow> int \<times> rat \<times> string option" where
  "summarizeLoop ar acc [] = acc"
| "summarizeLoop ar acc ((k, e) # rest) = summarizeLoop ar (summarizeStep ar acc e) rest"

definition summarizeCart :: "Arith \<Rightarrow> AppState \<Rightarrow> CartSummary" where
  "summarizeCart ar st =
     (case summarizeLoop ar (0, 0, currency st) (cart st) of
        (n, amount, nextCurrency) \<Rightarrow>
          \<lparr>items = n, total_amount = amount,
           total_currency = orElse nextCurrency ''USD''\<rparr>)"

text \<open>A run of \<^verbatim>\<open>updateCart\<close> calls, each on the state the previous one left.\<close>

fun updateCartAll :: "(Product \<times> int) list \<Rightarrow> AppState \<Rightarrow> AppState" where
  "updateCartAll [] st = st"
| "updateCartAll ((p, q) # calls) st = updateCartAll calls (updateCart p q st)"

section \<open>Order sheet and the UI triggers around it\<close>

text \<open>
  A handler created by \<^verbatim>\<open>useCallback\<close> reads the state of the render that created it.
  \<open>closeOrderSheetFrom v\<close> is \<^verbatim>\<open>closeOrderSheet\<close> as created by a render in which
  \<^verbatim>\<open>orderSheetVisible\<close> was \<open>v\<close>; a handler invoked from the current render sees the
  current value.
\<close>

definition openOrderSheet :: "AppState \<Rightarrow> AppState" where
  "openOrderSheet st = (if orderSheetVisible st then st else st\<lparr>orderSheetVisible := True\<rparr>)"

definition closeOrderSheetFrom :: "bool \<Rightarrow> AppState \<Rightarrow> AppState" where
  "closeOrderSheetFrom v st = (if \<not> v then st else st\<lparr>orderSheetVisible := False\<rparr>)"

definition closeOrderSheet :: "AppState \<Rightarrow> AppState" where
  "closeOrderSheet st = closeOrderSheetFrom (orderSheetVisible st) st"

text \<open>
  The click handler registered on the host's main button, and a click on the mini-cart
  pill, which is only rendered while \<^verbatim>\<open>cart.size > 0\<close>.
\<close>

definition mainButtonClick :: "AppState \<Rightarrow> AppState" where
  "mainButtonClick st = (if length (cart st) > 0 then openOrderSheet st else st)"

definition miniCartClick :: "AppState \<Rightarrow> AppState" where
  "miniCartClick st = (if length (cart st) > 0 then openOrderSheet st else st)"

text \<open>
  The product card shows the quantity counter when the cart has an entry for the product,
  and the Add button otherwise; a disabled button delivers no click.
\<close>

definition addButtonDisabled :: "Product \<Rightarrow> bool" where
  "addButtonDisabled p = (\<not> truthy (variantId p) \<or> priceAmount p = None)"

definition addButtonClick :: "Product \<Rightarrow> AppState \<Rightarrow> AppState" where
  "addButtonClick p st =
     (if Map_has (cart st) (product_id p) then st
      else if addButtonDisabled p then st
      else updateCart p 1 st)"

section \<open>Catalog client\<close>

subsection \<open>Text helpers\<close>

fun join :: "string \<Rightarrow> string list \<Rightarrow> string" where
  "join sep [] = []"
| "join sep [x] = x"
| "join sep (x # y # ys) = x @ sep @ join sep (y # ys)"

definition digit_char :: "nat \<Rightarrow> char" where
  "digit_char d = char_of (48 + d)"

fun string_of_nat :: "nat \<Rightarrow> string" where
  "string_of_nat n =
     (if n < 10 then [digit_char n] else string_of_nat (n div 10) @ [digit_char (n mod 10)])"

declare string_of_nat.simps [simp del]

definition string_of_int :: "int \<Rightarrow> string" where
  "string_of_int i = (if i < 0 then CHR ''-'' # string_of_nat (nat (- i)) else string_of_nat (nat i))"

definition is_digit :: "char \<Rightarrow> bool" where
  "is_digit c = (48 \<le> (of_char c :: nat) \<and> (of_char c :: nat) \<le> 57)"

subsection \<open>Requests\<close>

text \<open>
  What one \<^verbatim>\<open>fetch\<close> of the endpoint can come back with: the promise rejects; the response
  is not \<^verbatim>\<open>ok\<close> (status, body text or \<^verbatim>\<open>""\<close> when reading it failed, status text); reading
  the JSON body rejects; or a payload with its \<^verbatim>\<open>errors\<close> (the \<^verbatim>\<open>message\<close> of each, an absent
  list being the empty one) and its \<^verbatim>\<open>data\<close>.
\<close>

datatype 'd FetchOutcome =
    FetchRejected string
  | HttpNotOk nat string string
  | JsonRejected string
  | Payload "string option list" "'d option"

text \<open>\<^verbatim>\<open>graphQLRequest\<close>: \<open>Inl\<close> is the \<^verbatim>\<open>message\<close> of the error thrown.\<close>

fun graphQLRequest :: "'d FetchOutcome \<Rightarrow> string + 'd option" where
  "graphQLRequest (FetchRejected m) = Inl m"
| "graphQLRequest (HttpNotOk status errorText statusText) =
     Inl (''API request failed ('' @ string_of_nat status @ ''): ''
          @ (if errorText = [] then statusText else errorText))"
| "graphQLRequest (JsonRejected m) = Inl m"
| "graphQLRequest (Payload errors data) =
     (if errors \<noteq> [] then Inl (join '', '' (map (\<lambda>m. orElse m []) (filter truthy errors)))
      else Inr data)"

subsection \<open>Catalog of a store\<close>

record Money =
  money_amount :: "rat option"
  money_currency :: "string option"

record RawVariant =
  rv_id :: "string option"
  rv_name :: "string option"
  rv_sku :: "string option"
  rv_quantityAvailable :: "int option"
  rv_gross :: "Money option"

text \<open>\<^verbatim>\<open>node.variants\<close> is an array, a connection with \<^verbatim>\<open>edges\<close>, or missing.\<close>

datatype RawVariants =
    VariantArray "RawVariant list"
  | VariantConnection "RawVariant list"
  | VariantsMissing

record RawCategory =
  rc_id :: "string option"
  rc_name :: "string option"

record Thumbnail =
  url :: "string option"
  alt :: "string option"

record RawNode =
  node_id :: string
  node_slug :: string
  node_name :: string
  node_description :: "string option"
  node_category :: "RawCategory option"
  node_thumbnail :: "Thumbnail option"
  node_gross :: "Money option"
  node_variants :: RawVariants

definition variantsOf :: "RawNode \<Rightarrow> RawVariant list" where
  "variantsOf node =
     (case node_variants node of
        VariantArray vs \<Rightarrow> vs
      | VariantConnection vs \<Rightarrow> vs
      | VariantsMissing \<Rightarrow> [])"

definition toProduct :: "RawNode \<Rightarrow> Product" where
  "toProduct node =
     (let selectedVariant = (case variantsOf node of [] \<Rightarrow> None | v # _ \<Rightarrow> Some v);
          price =
            (case Option.bind selectedVariant rv_gross of
               Some g \<Rightarrow> Some g
             | None \<Rightarrow> node_gross node)
      in \<lparr>product_id = node_id node,
          product_slug = node_slug node,
          product_name = node_name node,
          product_description = orElse (node_description node) [],
          product_image = orElse (Option.bind (node_thumbnail node) url) [],
          product_imageAlt = orElse (Option.bind (node_thumbnail node) alt) (node_name node),
          variantId = orNull (Option.bind selectedVariant rv_id),
          variantName = orElse (Option.bind selectedVariant rv_name) [],
          variantSku = orElse (Option.bind selectedVariant rv_sku) [],
          quantityAvailable = Option.bind selectedVariant rv_quantityAvailable,
          priceAmount = Option.bind price money_amount,
          priceCurrency = Option.bind price money_currency\<rparr>)"

text \<open>The body of the \<^verbatim>\<open>edges.forEach\<close> callback, on the local map \<^verbatim>\<open>byCategory\<close>.\<close>

definition groupStep :: "(string \<times> Category) list \<Rightarrow> RawNode \<Rightarrow> (string \<times> Category) list" where
  "groupStep byCategory node =
     (let categoryId = orElse (Option.bind (node_category node) rc_id) ''uncategorized'';
          categoryName = orElse (Option.bind (node_category node) rc_name) ''Menu'';
          m1 = (if \<not> Map_has byCategory categoryId
                then Map_set categoryId
                       \<lparr>category_id = categoryId, category_name = categoryName, products = []\<rparr>
                       byCategory
                else byCategory)
      in case Map_get m1 categoryId of
           None \<Rightarrow> m1
         | Some c \<Rightarrow> Map_set categoryId (c\<lparr>products := products c @ [toProduct node]\<rparr>) m1)"

fun groupLoop :: "(string \<times> Category) list \<Rightarrow> RawNode list \<Rightarrow> (string \<times> Category) list" where
  "groupLoop byCategory [] = byCategory"
| "groupLoop byCategory (node # edges) = groupLoop (groupStep byCategory node) edges"

text \<open>
  \<^verbatim>\<open>Array.prototype.sort\<close> with a comparison function is a stable sort; insertion from the
  right, placing an element before the first one it does not follow, is one.
\<close>

fun insertBy :: "('a \<Rightarrow> 'a \<Rightarrow> int) \<Rightarrow> 'a \<Rightarrow> 'a list \<Rightarrow> 'a list" where
  "insertBy cmp x [] = [x]"
| "insertBy cmp x (y # ys) = (if cmp x y \<le> 0 then x # y # ys else y # insertBy cmp x ys)"

fun sortBy :: "('a \<Rightarrow> 'a \<Rightarrow> int) \<Rightarrow> 'a list \<Rightarrow> 'a list" where
  "sortBy cmp [] = []"
| "sortBy cmp (x # xs) = insertBy cmp x (sortBy cmp xs)"

text \<open>
  What the handlers read from outside the component. \<open>arith\<close> is the arithmetic of
  doubles; \<open>localeCompare a b\<close> stands for
  \<^verbatim>\<open>a.localeCompare(b, undefined, { sensitivity: "base" })\<close> and \<open>formatMoney\<close> for the
  function of that name, both computed by the platform's \<^verbatim>\<open>Intl\<close>; \<open>dateNow\<close> is
  \<^verbatim>\<open>Date.now()\<close>, and \<open>openLinkThrows\<close> says whether the host's \<^verbatim>\<open>openLink\<close> throws.
\<close>

record TelegramUser =
  user_id :: "int option"
  username :: "string option"

record Env =
  arith :: Arith
  saleorChannel :: string
  telegramUser :: "TelegramUser option"
  dateNow :: nat
  localeCompare :: "string \<Rightarrow> string \<Rightarrow> int"
  formatMoney :: "rat \<Rightarrow> string \<Rightarrow> string"
  openLinkThrows :: bool

definition firstCategory :: "Env \<Rightarrow> (string \<times> Category) list \<Rightarrow> Category option" where
  "firstCategory env byCategory =
     (case sortBy (\<lambda>a b. localeCompare env (category_name a) (category_name b)) (map snd byCategory) of
        [] \<Rightarrow> None
      | c # _ \<Rightarrow> Some c)"

text \<open>
  \<^verbatim>\<open>loadStoreProducts\<close>; the data of the payload is
  \<^verbatim>\<open>data?.collection?.products?.edges\<close>, \<open>None\<close> when any step of that path is missing.
\<close>

definition loadStoreProducts :: "Env \<Rightarrow> RawNode list FetchOutcome \<Rightarrow> AppState \<Rightarrow> string + AppState" where
  "loadStoreProducts env outcome st =
     (case graphQLRequest outcome of
        Inl m \<Rightarrow> Inl m
      | Inr data \<Rightarrow>
          (let edges = (case data of None \<Rightarrow> [] | Some es \<Rightarrow> es);
               byCategory = groupLoop [] edges
           in Inr (st\<lparr>productsByCategory := byCategory,
                      selectedCategoryId :=
                        orNull (map_option category_id (firstCategory env byCategory))\<rparr>)))"

definition selectStore :: "Env \<Rightarrow> Store \<Rightarrow> RawNode list FetchOutcome \<Rightarrow> AppState \<Rightarrow> AppState" where
  "selectStore env store outcome st =
     (let st1 = (resetCart (st\<lparr>selectedStore := Some store\<rparr>))
                  \<lparr>productEmptyMessage :=
                     ''This category has no products right now. Try another one.''\<rparr>
      in case loadStoreProducts env outcome st1 of
           Inr st2 \<Rightarrow> st2
         | Inl m \<Rightarrow>
             (showToast (orElse (Some m) ''Unable to load products for this store.'') st1)
               \<lparr>productsByCategory := [],
                selectedCategoryId := None,
                productEmptyMessage := ''Unable to load products. Swipe down to retry.''\<rparr>)"

section \<open>Order submission\<close>

record Line =
  line_quantity :: int
  line_variantId :: string

record CheckoutInput =
  channel :: string
  email :: string
  lines :: "Line list"
  metadata :: "(string \<times> string) list"

record CheckoutError =
  error_message :: "string option"
  error_code :: "string option"

record Checkout =
  webUrl :: "string option"

record CheckoutCreate =
  checkout :: "Checkout option"
  errors :: "CheckoutError list option"

record CheckoutData =
  checkoutCreate :: "CheckoutCreate option"

text \<open>What a submission does to the outside besides changing the state.\<close>

datatype Effect =
    BackendCall CheckoutInput
  | OpenLink string
  | WindowOpen string

definition buildPseudoEmail :: "TelegramUser option \<Rightarrow> nat \<Rightarrow> string" where
  "buildPseudoEmail userData now =
     (case userData of
        None \<Rightarrow> ''guest+'' @ string_of_nat now @ ''@telegram.local''
      | Some u \<Rightarrow>
          if truthy (username u) then orElse (username u) [] @ ''@telegram.local''
          else
            (let safeId =
                   (case user_id u of
                      None \<Rightarrow> string_of_nat now
                    | Some i \<Rightarrow>
                        if i = 0 then string_of_nat now
                        else filter is_digit (string_of_int i))
             in ''user'' @ safeId @ ''@telegram.local''))"

text \<open>The \<^verbatim>\<open>cart.forEach\<close> of \<^verbatim>\<open>submitOrder\<close> that collects the order lines.\<close>

fun orderLines :: "(string \<times> CartEntry) list \<Rightarrow> Line list" where
  "orderLines [] = []"
| "orderLines ((k, e) # rest) =
     (case variantId (product e) of
        None \<Rightarrow> orderLines rest
      | Some v \<Rightarrow>
          if v \<noteq> [] \<and> priceAmount (product e) \<noteq> None
          then \<lparr>line_quantity = quantity e, line_variantId = v\<rparr> # orderLines rest
          else orderLines rest)"

definition checkoutInput :: "Env \<Rightarrow> AppState \<Rightarrow> CheckoutInput" where
  "checkoutInput env st =
     (let summary = summarizeCart (arith env) st;
          fallbackCurrency = orElse (Some (total_currency summary)) ''USD''
      in \<lparr>channel = saleorChannel env,
          email = buildPseudoEmail (telegramUser env) (dateNow env),
          lines = orderLines (cart st),
          metadata =
            [(''telegram_user_id'',
              (case Option.bind (telegramUser env) user_id of
                 None \<Rightarrow> ''guest''
               | Some i \<Rightarrow> if i = 0 then ''guest'' else string_of_int i)),
             (''telegram_username'', orElse (Option.bind (telegramUser env) username) []),
             (''store_slug'', orElse (map_option store_slug (selectedStore st)) []),
             (''telegram_order_total'',
              formatMoney env (total_amount summary) fallbackCurrency)]\<rparr>)"

text \<open>
  \<^verbatim>\<open>submitOrder\<close> up to its \<^verbatim>\<open>await\<close>: the state it leaves and the request it has sent,
  if any.
\<close>

definition submitOrder_start :: "Env \<Rightarrow> AppState \<Rightarrow> AppState \<times> CheckoutInput option" where
  "submitOrder_start env st =
     (if isSubmitting st then (st, None)
      else if orderLines (cart st) = []
      then (showToast ''Nothing to submit. Add items first.'' st, None)
      else (st\<lparr>isSubmitting := True\<rparr>, Some (checkoutInput env st)))"

text \<open>
  The \<^verbatim>\<open>try\<close> block after the \<^verbatim>\<open>await\<close>: \<open>Inl\<close> is the message of the error it throws,
  \<open>Inr\<close> the \<^verbatim>\<open>checkoutUrl\<close> it goes on with.
\<close>

definition checkoutResult :: "CheckoutData FetchOutcome \<Rightarrow> string + string option" where
  "checkoutResult outcome =
     (case graphQLRequest outcome of
        Inl m \<Rightarrow> Inl m
      | Inr data \<Rightarrow>
          (let result = Option.bind data checkoutCreate;
               errs = (case Option.bind result errors of None \<Rightarrow> [] | Some es \<Rightarrow> es)
           in if errs \<noteq> []
              then Inl (orElse
                          (Some (join '', ''
                             (map (\<lambda>err. orElse (error_message err) (orElse (error_code err) []))
                                errs)))
                          ''Saleor returned an error.'')
              else Inr (orNull (Option.bind (Option.bind result checkout) webUrl))))"

text \<open>
  \<^verbatim>\<open>submitOrder\<close> from the moment the request settles, on the state of that moment;
  \<open>v\<close> is the \<^verbatim>\<open>orderSheetVisible\<close> of the render the running call was created in.
\<close>

definition submitOrder_settle ::
  "Env \<Rightarrow> bool \<Rightarrow> CheckoutData FetchOutcome \<Rightarrow> AppState \<Rightarrow> AppState \<times> Effect list" where
  "submitOrder_settle env v outcome st =
     (case checkoutResult outcome of
        Inr checkoutUrl \<Rightarrow>
          ((showToast ''Order draft created. Continue in Saleor to finalize.''
              (resetCart (closeOrderSheetFrom v st)))\<lparr>isSubmitting := False\<rparr>,
           (case checkoutUrl of
              None \<Rightarrow> []
            | Some u \<Rightarrow> if openLinkThrows env then [WindowOpen u] else [OpenLink u]))
      | Inl m \<Rightarrow>
          ((showToast (''Order submission failed: '' @ orElse (Some m) ''Unknown error'') st)
             \<lparr>isSubmitting := False\<rparr>,
           []))"

text \<open>One whole submission, with no other handler running while the request is pending.\<close>

definition submitOrder :: "Env \<Rightarrow> CheckoutData FetchOutcome \<Rightarrow> AppState \<Rightarrow> AppState \<times> Effect list" where
  "submitOrder env outcome st =
     (case submitOrder_start env st of
        (st1, None) \<Rightarrow> (st1, [])
      | (st1, Some request) \<Rightarrow>
          (case submitOrder_settle env (orderSheetVisible st) outcome st1 of
             (st2, effects) \<Rightarrow> (st2, BackendCall request # effects)))"

text \<open>Two clicks on the submit control, the second while the first request is pending.\<close>

definition submitTwice :: "Env \<Rightarrow> AppState \<Rightarrow> AppState \<times> CheckoutInput list" where
  "submitTwice env st =
     (case submitOrder_start env st of
        (st1, r1) \<Rightarrow>
          (case submitOrder_start env st1 of
             (st2, r2) \<Rightarrow> (st2, (case r1 of None \<Rightarrow> [] | Some a \<Rightarrow> [a]) @ (case r2 of None \<Rightarrow> [] | Some b \<Rightarrow> [b]))))"

section \<open>Reference quantities and sample data\<close>

text \<open>
  The entries of the cart that have a price, in cart order, and the product of price and
  quantity of one of them; the cart summary is compared with sums over these.
\<close>

definition pricedEntries :: "(string \<times> CartEntry) list \<Rightarrow> CartEntry list" where
  "pricedEntries c = filter (\<lambda>e. priceAmount (product e) \<noteq> None) (map snd c)"

definition lineTotal :: "Arith \<Rightarrow> CartEntry \<Rightarrow> rat" where
  "lineTotal ar e =
     (case priceAmount (product e) of
        None \<Rightarrow> 0
      | Some a \<Rightarrow> mulNumbers ar a (of_int (quantity e)))"

text \<open>
  Arithmetic that rounds nothing, which is what doubles do on the small whole amounts of
  the sample data below.
\<close>

definition exactArith :: Arith where
  "exactArith = \<lparr>addNumbers = (+), mulNumbers = (*)\<rparr>"

text \<open>
  The well-formedness of a cart: one entry per key, every entry filed under the identity
  of its product, every quantity at least one.
\<close>

definition cartInv :: "(string \<times> CartEntry) list \<Rightarrow> bool" where
  "cartInv c = (distinct (map fst c) \<and> (\<forall>(k, e) \<in> set c. 1 \<le> quantity e \<and> k = product_id (product e)))"

text \<open>The state of the first render, as the \<^verbatim>\<open>useState\<close> calls initialise it.\<close>

definition initialState :: AppState where
  "initialState =
     \<lparr>selectedStore = None,
      selectedCategoryId = None,
      productsByCategory = [],
      productEmptyMessage = ''This category has no products right now. Try another one.'',
      cart = [],
      currency = None,
      orderSheetVisible = False,
      isSubmitting = False,
      toast = \<lparr>message = [], visible = False\<rparr>\<rparr>"

text \<open>
  A purchasable product of which two are in stock, and a product with neither a variant
  nor a price.
\<close>

definition espresso :: Product where
  "espresso =
     \<lparr>product_id = ''p1'', product_slug = ''espresso'', product_name = ''Espresso'',
      product_description = [], product_image = [], product_imageAlt = ''Espresso'',
      variantId = Some ''v1'', variantName = ''Single'', variantSku = ''ESP-1'',
      quantityAvailable = Some 2, priceAmount = Some 5, priceCurrency = Some ''EUR''\<rparr>"

definition sample :: Product where
  "sample = espresso\<lparr>product_id := ''p2'', variantId := None, priceAmount := None, priceCurrency := None\<rparr>"

text \<open>
  A comparison that ignores the case of ASCII letters and otherwise compares character
  codes from the left; on names made of ASCII letters it orders as
  \<^verbatim>\<open>localeCompare\<close> with \<^verbatim>\<open>sensitivity: "base"\<close> does.
\<close>

definition asciiLower :: "char \<Rightarrow> nat" where
  "asciiLower c = (if 65 \<le> (of_char c :: nat) \<and> (of_char c :: nat) \<le> 90 then of_char c + 32 else of_char c)"

definition asciiCompare :: "string \<Rightarrow> string \<Rightarrow> int" where
  "asciiCompare a b =
     (if map asciiLower a = map asciiLower b then 0
      else if map asciiLower a < map asciiLower b then - 1 else 1)"

text \<open>The application opened in a plain browser: no Telegram user, \<^verbatim>\<open>openLink\<close> works.\<close>

definition webEnv :: Env where
  "webEnv =
     \<lparr>arith = exactArith,
      saleorChannel = ''default-channel'',
      telegramUser = None,
      dateNow = 0,
      localeCompare = asciiCompare,
      formatMoney = (\<lambda>amount cur. cur),
      openLinkThrows = False\<rparr>"

text \<open>
  Two sessions: the unpurchasable product put into the cart by \<^verbatim>\<open>updateCart\<close>, and two
  espressos in the cart.
\<close>

definition sampleOnly :: AppState where
  "sampleOnly = updateCart sample 1 initialState"

definition espressoOnly :: AppState where
  "espressoOnly = updateCart espresso 2 initialState"

text \<open>A checkout that the backend rejects with one validation error.\<close>

definition outOfStock :: "CheckoutData FetchOutcome" where
  "outOfStock =
     Payload []
       (Some \<lparr>checkoutCreate =
                Some \<lparr>checkout = None,
                      errors = Some [\<lparr>error_message = Some ''Insufficient stock'',
                                      error_code = Some ''INSUFFICIENT_STOCK''\<rparr>]\<rparr>\<rparr>)"

text \<open>
  A store whose catalog has a burger in the category \<^verbatim>\<open>Food\<close> and a cola, without price or
  variant, in the category \<^verbatim>\<open>drinks\<close>.
\<close>

definition burger :: RawNode where
  "burger =
     \<lparr>node_id = ''n1'', node_slug = ''burger'', node_name = ''Burger'',
      node_description = None,
      node_category = Some \<lparr>rc_id = Some ''cat-food'', rc_name = Some ''Food''\<rparr>,
      node_thumbnail = None,
      node_gross = Some \<lparr>money_amount = Some 9, money_currency = Some ''EUR''\<rparr>,
      node_variants = VariantArray []\<rparr>"

definition cola :: RawNode where
  "cola =
     \<lparr>node_id = ''n2'', node_slug = ''cola'', node_name = ''Cola'',
      node_description = None,
      node_category = Some \<lparr>rc_id = Some ''cat-drinks'', rc_name = Some ''drinks''\<rparr>,
      node_thumbnail = None,
      node_gross = None,
      node_variants = VariantsMissing\<rparr>"

definition corner :: Store where
  "corner =
     \<lparr>store_id = ''s1'', store_slug = ''corner'', store_name = ''Corner'',
      store_description = [], store_image = [], store_imageAlt = ''Corner''\<rparr>"

text \<open>
  What \<^verbatim>\<open>loadStoreProducts\<close> keeps true of \<^verbatim>\<open>byCategory\<close>: no key is empty, and every
  category is filed under its own identity.
\<close>

definition catInv :: "(string \<times> Category) list \<Rightarrow> bool" where
  "catInv m = (\<forall>(k, c) \<in> set m. k \<noteq> [] \<and> category_id c = k)"

section \<open>Facts about the built-in map\<close>

lemma Map_get_set: "Map_get (Map_set k v m) k' = (if k' = k then Some v else Map_get m k')"
  by (induction m) auto

lemma Map_get_delete: "Map_get (Map_delete k m) k' = (if k' = k then None else Map_get m k')"
  by (induction m) auto

lemma Map_get_None_iff: "Map_get m k = None \<longleftrightarrow> k \<notin> fst ` set m"
  by (induction m) (auto split: if_splits)

lemma Map_get_Some_mem: "Map_get m k = Some v \<Longrightarrow> (k, v) \<in> set m"
  by (induction m) (auto split: if_splits)

lemma keys_Map_set: "fst ` set (Map_set k v m) = insert k (fst ` set m)"
proof (induction m)
  case Nil
  show ?case by simp
next
  case (Cons a m)
  obtain k' v' where a: "a = (k', v')" by (cases a)
  show ?case
  proof (cases "k' = k")
    case True
    then show ?thesis by (simp add: a)
  next
    case False
    then show ?thesis using Cons.IH by (simp add: a insert_commute)
  qed
qed

lemma set_Map_set: "set (Map_set k v m) \<subseteq> insert (k, v) (set m)"
  by (induction m) (auto split: if_splits)

lemma set_Map_delete: "set (Map_delete k m) \<subseteq> set m"
  by (induction m) (auto split: if_splits)

lemma keys_Map_delete: "fst ` set (Map_delete k m) = fst ` set m - {k}"
proof (induction m)
  case Nil
  show ?case by simp
next
  case (Cons a m)
  obtain k' v' where a: "a = (k', v')" by (cases a)
  show ?case
  proof (cases "k' = k")
    case True
    then show ?thesis using Cons.IH by (simp add: a)
  next
    case False
    then show ?thesis using Cons.IH by (simp add: a insert_Diff_if)
  qed
qed

lemma distinct_Map_set: "distinct (map fst m) \<Longrightarrow> distinct (map fst (Map_set k v m))"
  by (induction m) (auto simp: keys_Map_set)

lemma distinct_Map_delete: "distinct (map fst m) \<Longrightarrow> distinct (map fst (Map_delete k m))"
  by (induction m) (auto simp: keys_Map_delete)

lemma cart_updateCart:
  "cart (updateCart p q st) =
     (if q \<le> 0 then Map_delete (product_id p) (cart st)
      else Map_set (product_id p) \<lparr>product = p, quantity = q\<rparr> (cart st))"
  by (simp add: updateCart_def Let_def)

section \<open>Cart store: quantities and keys\<close>

lemma cartInv_updateCart: "cartInv (cart st) \<Longrightarrow> cartInv (cart (updateCart p q st))"
  unfolding cartInv_def cart_updateCart
  using set_Map_set[of "product_id p" "\<lparr>product = p, quantity = q\<rparr>" "cart st"]
        set_Map_delete[of "product_id p" "cart st"]
  by (auto simp: distinct_Map_set distinct_Map_delete)

lemma cartInv_updateCartAll: "cartInv (cart st) \<Longrightarrow> cartInv (cart (updateCartAll calls st))"
  by (induction calls arbitrary: st) (auto simp: cartInv_updateCart)

text \<open>
  Claim C3. After any sequence of \<^verbatim>\<open>updateCart\<close> calls that starts from an empty cart, the
  cart has at most one entry per product identity, each entry is filed under the identity
  of its product, and every quantity is at least one. A call with a quantity of zero or
  less leaves no entry for the product, whatever the cart was.
\<close>

theorem setQuantity_sequences_keep_cart_wellformed:
  "(cart st = [] \<longrightarrow>
      distinct (map fst (cart (updateCartAll calls st))) \<and>
      (\<forall>(k, e) \<in> set (cart (updateCartAll calls st)). 1 \<le> quantity e \<and> k = product_id (product e))) \<and>
   (q \<le> 0 \<longrightarrow> product_id p \<notin> fst ` set (cart (updateCart p q st)) \<and>
      Map_get (cart (updateCart p q st)) (product_id p) = None)"
proof (intro conjI impI)
  assume "cart st = []"
  then have "cartInv (cart st)" by (simp add: cartInv_def)
  then have inv: "cartInv (cart (updateCartAll calls st))" by (rule cartInv_updateCartAll)
  from inv show "distinct (map fst (cart (updateCartAll calls st)))" by (simp add: cartInv_def)
  from inv show "\<forall>(k, e) \<in> set (cart (updateCartAll calls st)). 1 \<le> quantity e \<and> k = product_id (product e)"
    by (simp add: cartInv_def)
next
  assume "q \<le> 0"
  then show "product_id p \<notin> fst ` set (cart (updateCart p q st))"
    by (simp add: cart_updateCart keys_Map_delete)
next
  assume "q \<le> 0"
  then show "Map_get (cart (updateCart p q st)) (product_id p) = None"
    by (simp add: cart_updateCart Map_get_delete)
qed

theorem setQuantity_sequences_keep_cart_wellformed_witness:
  "cart initialState = [] \<and>
   cart (updateCartAll [(espresso, 2), (sample, 1), (espresso, 0), (espresso, 3)] initialState) =
     [(''p2'', \<lparr>product = sample, quantity = 1\<rparr>), (''p1'', \<lparr>product = espresso, quantity = 3\<rparr>)] \<and>
   distinct (map fst
     (cart (updateCartAll [(espresso, 2), (sample, 1), (espresso, 0), (espresso, 3)] initialState))) \<and>
   Map_get (cart (updateCart espresso 0 (updateCart espresso 2 initialState))) ''p1'' = None"
proof -
  have e: "cart initialState = []" by (simp add: initialState_def)
  have i: "product_id espresso = ''p1''" by (simp add: espresso_def)
  have j: "product_id sample = ''p2''" by (simp add: sample_def)
  have c: "cart (updateCartAll [(espresso, 2), (sample, 1), (espresso, 0), (espresso, 3)] initialState) =
     [(''p2'', \<lparr>product = sample, quantity = 1\<rparr>), (''p1'', \<lparr>product = espresso, quantity = 3\<rparr>)]"
    by (simp add: cart_updateCart e i) (simp add: sample_def espresso_def)
  from setQuantity_sequences_keep_cart_wellformed
         [of initialState "[(espresso, 2), (sample, 1), (espresso, 0), (espresso, 3)]" 0 espresso]
       setQuantity_sequences_keep_cart_wellformed
         [of "updateCart espresso 2 initialState" "[]" 0 espresso]
       e c
  show ?thesis by (simp add: i j)
qed

section \<open>Cart store: the summary\<close>

lemma summarizeLoop_items:
  "fst (summarizeLoop ar (n, a, c) m) = n + sum_list (map quantity (pricedEntries m))"
proof (induction m arbitrary: n a c)
  case Nil
  show ?case by (simp add: pricedEntries_def)
next
  case (Cons x m)
  obtain k e where x: "x = (k, e)" by (cases x)
  show ?case
    using Cons.IH by (cases "priceAmount (product e)") (simp_all add: x pricedEntries_def)
qed

lemma summarizeLoop_amount:
  "fst (snd (summarizeLoop ar (n, a, c) m)) =
     foldl (addNumbers ar) a (map (lineTotal ar) (pricedEntries m))"
proof (induction m arbitrary: n a c)
  case Nil
  show ?case by (simp add: pricedEntries_def)
next
  case (Cons x m)
  obtain k e where x: "x = (k, e)" by (cases x)
  show ?case
    using Cons.IH
    by (cases "priceAmount (product e)") (simp_all add: x pricedEntries_def lineTotal_def)
qed

lemma summarizeCart_items:
  "items (summarizeCart ar st) = fst (summarizeLoop ar (0, 0, currency st) (cart st))"
  by (simp add: summarizeCart_def split: prod.splits)

lemma summarizeCart_amount:
  "total_amount (summarizeCart ar st) = fst (snd (summarizeLoop ar (0, 0, currency st) (cart st)))"
  by (simp add: summarizeCart_def split: prod.splits)

text \<open>
  Claim C9. For every cart, the item count of \<^verbatim>\<open>summarizeCart\<close> is the sum of the
  quantities of exactly the entries whose product has a price, and the total amount is the
  sum of price times quantity over the same entries: the products, each made by the
  platform's \<^verbatim>\<open>*\<close>, added up from 0 in cart order by the platform's \<^verbatim>\<open>+\<close>. An entry
  without a price adds to neither. The statement holds for whatever the two operations
  round to; \<open>summarize_total_without_rounding\<close> below is the case in which they round
  nothing.
\<close>

theorem summarize_counts_priced_entries:
  "items (summarizeCart ar st) = sum_list (map quantity (pricedEntries (cart st))) \<and>
   total_amount (summarizeCart ar st) =
     foldl (addNumbers ar) 0 (map (lineTotal ar) (pricedEntries (cart st)))"
  by (simp add: summarizeCart_items summarizeCart_amount summarizeLoop_items summarizeLoop_amount)

lemma foldl_add_sum_list: "foldl (+) (a::rat) xs = a + sum_list xs"
  by (induction xs arbitrary: a) (simp_all add: ac_simps)

lemma summarize_total_without_rounding:
  "total_amount (summarizeCart exactArith st) =
     sum_list (map (lineTotal exactArith) (pricedEntries (cart st)))"
proof -
  have "addNumbers exactArith = (+)" by (simp add: exactArith_def)
  then show ?thesis
    by (simp add: summarizeCart_amount summarizeLoop_amount foldl_add_sum_list)
qed

text \<open>
  Claim C4, as stated: after \<^verbatim>\<open>resetCart\<close> the summary has an unset currency. It does not:
  the summary of the cleared initial state carries the currency \<^verbatim>\<open>"USD"\<close>, a non-empty
  string.
\<close>

theorem summarize_after_clear_counterexample:
  "total_currency (summarizeCart exactArith (resetCart initialState)) = ''USD'' \<and>
   total_currency (summarizeCart exactArith (resetCart initialState)) \<noteq> []"
  by (simp add: resetCart_def summarizeCart_def orElse_def initialState_def)

text \<open>
  Claim C4, amended. \<^verbatim>\<open>resetCart\<close> empties the cart and unsets the stored currency, and the
  summary taken then has item count 0, total amount 0 and the default currency
  \<^verbatim>\<open>"USD"\<close>. Whenever the cart is empty, the summary has item count 0, total amount 0 and,
  as currency, the stored currency when that is set and non-empty, \<^verbatim>\<open>"USD"\<close> otherwise.
\<close>

theorem summarize_empty_cart:
  "cart (resetCart st) = [] \<and> currency (resetCart st) = None \<and>
   summarizeCart ar (resetCart st) = \<lparr>items = 0, total_amount = 0, total_currency = ''USD''\<rparr> \<and>
   (cart st = [] \<longrightarrow>
      summarizeCart ar st =
        \<lparr>items = 0, total_amount = 0, total_currency = orElse (currency st) ''USD''\<rparr>)"
  by (simp add: resetCart_def summarizeCart_def orElse_def)

theorem summarize_empty_cart_witness:
  "cart (updateCart espresso 0 initialState) = [] \<and>
   summarizeCart exactArith (updateCart espresso 0 initialState) =
     \<lparr>items = 0, total_amount = 0, total_currency = ''EUR''\<rparr>"
  using summarize_empty_cart [of "updateCart espresso 0 initialState" exactArith]
  by (simp add: updateCart_def initialState_def espresso_def truthy_def orElse_def)

section \<open>Cart store: stock and purchasability\<close>

lemma map_quantity_Map_set:
  "map (\<lambda>(k, e). (k, g e)) (Map_set k0 v m) = Map_set k0 (g v) (map (\<lambda>(k, e). (k, g e)) m)"
  by (induction m) auto

lemma map_quantity_Map_delete:
  "map (\<lambda>(k, e). (k, g e)) (Map_delete k0 m) = Map_delete k0 (map (\<lambda>(k, e). (k, g e)) m)"
  by (induction m) auto

text \<open>
  Claim C10. For every product and every quantity \<open>n > 0\<close>, \<^verbatim>\<open>updateCart\<close> stores the entry
  with exactly the quantity \<open>n\<close>, and the quantities in the resulting cart are the same
  whatever the product's \<^verbatim>\<open>quantityAvailable\<close> is: stock never limits a cart quantity.
\<close>

theorem updateCart_stores_requested_quantity:
  "(0 < n \<longrightarrow>
      Map_get (cart (updateCart p n st)) (product_id p) = Some \<lparr>product = p, quantity = n\<rparr>) \<and>
   map (\<lambda>(k, e). (k, quantity e)) (cart (updateCart (p\<lparr>quantityAvailable := a\<rparr>) n st)) =
   map (\<lambda>(k, e). (k, quantity e)) (cart (updateCart p n st))"
  by (simp add: cart_updateCart Map_get_set map_quantity_Map_set map_quantity_Map_delete)

theorem updateCart_stores_requested_quantity_witness:
  "quantityAvailable espresso = Some 2 \<and> (0::int) < 5 \<and>
   Map_get (cart (updateCart espresso 5 initialState)) ''p1'' =
     Some \<lparr>product = espresso, quantity = 5\<rparr>"
  using updateCart_stores_requested_quantity [of 5 espresso initialState]
  by (simp add: espresso_def)

text \<open>
  Claim C2, as stated: \<^verbatim>\<open>updateCart\<close> leaves the cart unchanged for a product that is not
  purchasable. It does not: called with quantity 1 on the empty cart for a product with
  neither a variant nor a price, it inserts the product.
\<close>

theorem updateCart_ignores_purchasability_counterexample:
  "variantId sample = None \<and> priceAmount sample = None \<and>
   cart (updateCart sample 1 initialState) = [(''p2'', \<lparr>product = sample, quantity = 1\<rparr>)] \<and>
   cart (updateCart sample 1 initialState) \<noteq> cart initialState"
  by (simp add: updateCart_def sample_def espresso_def initialState_def truthy_def)

text \<open>
  Claim C2, amended. For every product without a variant identity or without a price the
  Add button is disabled, and a click on it leaves the state unchanged. \<^verbatim>\<open>updateCart\<close>
  itself does not look at purchasability: for every product it removes the entry when the
  quantity is zero or less and stores the product with the quantity otherwise.
\<close>

theorem nonpurchasable_add_button_disabled:
  "((variantId p = None \<or> priceAmount p = None) \<longrightarrow>
      addButtonDisabled p \<and> addButtonClick p st = st) \<and>
   cart (updateCart p q st) =
     (if q \<le> 0 then Map_delete (product_id p) (cart st)
      else Map_set (product_id p) \<lparr>product = p, quantity = q\<rparr> (cart st))"
  by (auto simp: addButtonDisabled_def addButtonClick_def truthy_def cart_updateCart)

theorem nonpurchasable_add_button_disabled_witness:
  "priceAmount sample = None \<and> addButtonDisabled sample \<and>
   addButtonClick sample initialState = initialState"
  using nonpurchasable_add_button_disabled [of sample initialState]
  by (simp add: sample_def)

section \<open>Order sheet: repeated calls and the cart gate\<close>

text \<open>
  Claim C7, as stated: \<^verbatim>\<open>openOrderSheet\<close> does nothing when the cart is empty. It does not
  look at the cart: on the initial state, whose cart is empty and whose sheet is closed,
  it opens the sheet.
\<close>

theorem openOrderSheet_ignores_cart_counterexample:
  "cart initialState = [] \<and> \<not> orderSheetVisible initialState \<and>
   orderSheetVisible (openOrderSheet initialState)"
  by (simp add: openOrderSheet_def initialState_def)

text \<open>
  Claim C7, amended. \<^verbatim>\<open>openOrderSheet\<close> changes nothing when the sheet is open,
  \<^verbatim>\<open>closeOrderSheet\<close> changes nothing when it is closed, and the two triggers that call
  \<^verbatim>\<open>openOrderSheet\<close>, the click on the main button and the click on the mini-cart pill,
  change nothing when the cart is empty.
\<close>

theorem order_sheet_noops:
  "(orderSheetVisible st \<longrightarrow> openOrderSheet st = st) \<and>
   (\<not> orderSheetVisible st \<longrightarrow> closeOrderSheet st = st) \<and>
   (cart st = [] \<longrightarrow> mainButtonClick st = st \<and> miniCartClick st = st)"
  by (simp add: openOrderSheet_def closeOrderSheet_def closeOrderSheetFrom_def
      mainButtonClick_def miniCartClick_def)

theorem order_sheet_noops_witness:
  "cart initialState = [] \<and> \<not> orderSheetVisible initialState \<and>
   mainButtonClick initialState = initialState \<and> miniCartClick initialState = initialState \<and>
   closeOrderSheet initialState = initialState \<and>
   openOrderSheet (openOrderSheet espressoOnly) = openOrderSheet espressoOnly"
proof -
  have c: "cart initialState = []" by (simp add: initialState_def)
  have v: "\<not> orderSheetVisible initialState" by (simp add: initialState_def)
  have o: "orderSheetVisible (openOrderSheet espressoOnly)" by (simp add: openOrderSheet_def)
  from order_sheet_noops [of initialState] order_sheet_noops [of "openOrderSheet espressoOnly"] c v o
  show ?thesis by blast
qed

section \<open>Order submission: failure, empty orders, repeated calls\<close>

lemma orderLines_empty:
  "\<forall>(k, e) \<in> set c. variantId (product e) = None \<or> priceAmount (product e) = None \<Longrightarrow> orderLines c = []"
  by (induction c rule: orderLines.induct) (auto split: option.splits)

lemma checkoutResult_failure_kinds:
  "checkoutResult (FetchRejected m) = Inl m"
  "checkoutResult (JsonRejected m) = Inl m"
  "checkoutResult (HttpNotOk status errorText statusText) =
     Inl (''API request failed ('' @ string_of_nat status @ ''): ''
          @ (if errorText = [] then statusText else errorText))"
  "errs \<noteq> [] \<Longrightarrow>
     checkoutResult (Payload errs data) =
       Inl (join '', '' (map (\<lambda>m. orElse m []) (filter truthy errs)))"
  "es \<noteq> [] \<Longrightarrow>
     checkoutResult (Payload [] (Some \<lparr>checkoutCreate = Some \<lparr>checkout = c, errors = Some es\<rparr>\<rparr>)) =
       Inl (orElse
              (Some (join '', ''
                 (map (\<lambda>err. orElse (error_message err) (orElse (error_code err) [])) es)))
              ''Saleor returned an error.'')"
  by (simp_all add: checkoutResult_def)

text \<open>
  Claim C1. When the request of a submission fails, by a transport failure, by an error
  list in the payload or by a rejection of the checkout, which are the cases in which
  \<open>checkoutResult\<close> is an \<open>Inl\<close>, the rest of \<^verbatim>\<open>submitOrder\<close> changes nothing but the
  toast and the submission flag, on whatever state it resumes. So a submission that sent
  its request ends with the cart and the sheet visibility it started from, the flag
  cleared, and a visible toast made of \<^verbatim>\<open>"Order submission failed: "\<close> and the message of
  the error (\<^verbatim>\<open>"Unknown error"\<close> when that message is empty).
\<close>

theorem submitOrder_failure_keeps_cart_and_sheet:
  assumes "checkoutResult outcome = Inl m"
  shows "submitOrder_settle env v outcome st =
           (st\<lparr>toast := \<lparr>message = ''Order submission failed: '' @ (if m = [] then ''Unknown error'' else m),
                         visible = True\<rparr>,
               isSubmitting := False\<rparr>, []) \<and>
         (\<not> isSubmitting st \<and> orderLines (cart st) \<noteq> [] \<longrightarrow>
            (case submitOrder env outcome st of
               (st', effects) \<Rightarrow>
                 cart st' = cart st \<and> orderSheetVisible st' = orderSheetVisible st \<and>
                 \<not> isSubmitting st' \<and>
                 toast st' =
                   \<lparr>message = ''Order submission failed: '' @ (if m = [] then ''Unknown error'' else m),
                    visible = True\<rparr> \<and>
                 effects = [BackendCall (checkoutInput env st)]))"
  using assms
  by (simp add: submitOrder_def submitOrder_start_def submitOrder_settle_def showToast_def orElse_def)

theorem submitOrder_failure_keeps_cart_and_sheet_witness:
  "checkoutResult outOfStock = Inl ''Insufficient stock'' \<and>
   (case submitOrder webEnv outOfStock (openOrderSheet espressoOnly) of
      (st', effects) \<Rightarrow>
        cart st' = [(''p1'', \<lparr>product = espresso, quantity = 2\<rparr>)] \<and>
        orderSheetVisible st' \<and> \<not> isSubmitting st' \<and>
        toast st' = \<lparr>message = ''Order submission failed: Insufficient stock'', visible = True\<rparr> \<and>
        length effects = 1)"
proof -
  have f: "checkoutResult outOfStock = Inl ''Insufficient stock''"
    by (simp add: outOfStock_def checkoutResult_def orElse_def)
  have c: "cart (openOrderSheet espressoOnly) = [(''p1'', \<lparr>product = espresso, quantity = 2\<rparr>)]"
    by (simp add: openOrderSheet_def espressoOnly_def updateCart_def initialState_def espresso_def truthy_def)
  have i: "\<not> isSubmitting (openOrderSheet espressoOnly)"
    by (simp add: openOrderSheet_def espressoOnly_def updateCart_def initialState_def espresso_def truthy_def)
  have v: "orderSheetVisible (openOrderSheet espressoOnly)"
    by (simp add: openOrderSheet_def)
  have l: "orderLines (cart (openOrderSheet espressoOnly)) \<noteq> []"
    by (simp add: c espresso_def)
  from submitOrder_failure_keeps_cart_and_sheet [OF f, of webEnv False "openOrderSheet espressoOnly"] i l c v f
  show ?thesis by (auto split: prod.splits)
qed

text \<open>
  Claim C5. If no cart entry has both a variant identity and a price, also when the cart
  is not empty, then \<^verbatim>\<open>submitOrder\<close> sends no request and does not set the submission
  flag, and, called while no submission is in flight (the state in which it gets past its
  first line), it posts the notification \<^verbatim>\<open>"Nothing to submit. Add items first."\<close> and
  leaves the flag unset.
\<close>

theorem submitOrder_nothing_to_submit:
  assumes "\<forall>(k, e) \<in> set (cart st). variantId (product e) = None \<or> priceAmount (product e) = None"
  shows "snd (submitOrder_start env st) = None \<and>
         snd (submitOrder env outcome st) = [] \<and>
         isSubmitting (fst (submitOrder env outcome st)) = isSubmitting st \<and>
         (\<not> isSubmitting st \<longrightarrow>
            submitOrder_start env st = (showToast ''Nothing to submit. Add items first.'' st, None) \<and>
            submitOrder env outcome st = (showToast ''Nothing to submit. Add items first.'' st, []) \<and>
            toast (fst (submitOrder env outcome st)) =
              \<lparr>message = ''Nothing to submit. Add items first.'', visible = True\<rparr> \<and>
            \<not> isSubmitting (fst (submitOrder env outcome st)))"
  using orderLines_empty [OF assms]
  by (simp add: submitOrder_def submitOrder_start_def showToast_def)

theorem submitOrder_nothing_to_submit_witness:
  "cart sampleOnly \<noteq> [] \<and> \<not> isSubmitting sampleOnly \<and>
   submitOrder webEnv (FetchRejected ''offline'') sampleOnly =
     (showToast ''Nothing to submit. Add items first.'' sampleOnly, []) \<and>
   toast (fst (submitOrder webEnv (FetchRejected ''offline'') sampleOnly)) =
     \<lparr>message = ''Nothing to submit. Add items first.'', visible = True\<rparr>"
proof -
  have h: "\<forall>(k, e) \<in> set (cart sampleOnly). variantId (product e) = None \<or> priceAmount (product e) = None"
    by (simp add: sampleOnly_def updateCart_def initialState_def sample_def espresso_def truthy_def)
  have i: "\<not> isSubmitting sampleOnly"
    by (simp add: sampleOnly_def updateCart_def initialState_def sample_def espresso_def truthy_def)
  have c: "cart sampleOnly \<noteq> []"
    by (simp add: sampleOnly_def updateCart_def initialState_def sample_def espresso_def truthy_def)
  from submitOrder_nothing_to_submit [OF h, of webEnv "FetchRejected ''offline''"] i c
  show ?thesis by blast
qed

text \<open>
  Claim C6. While the submission flag is set, \<^verbatim>\<open>submitOrder\<close> returns at once: the state
  is unchanged and no request is sent. Two submissions issued back to back therefore send
  exactly one request when the first one had something to send, and none otherwise.
\<close>

theorem submitOrder_noop_while_in_flight:
  "(isSubmitting st \<longrightarrow>
      submitOrder_start env st = (st, None) \<and> submitOrder env outcome st = (st, [])) \<and>
   snd (submitTwice env st) =
     (if \<not> isSubmitting st \<and> orderLines (cart st) \<noteq> [] then [checkoutInput env st] else [])"
  by (simp add: submitOrder_def submitOrder_start_def submitTwice_def showToast_def)

theorem submitOrder_noop_while_in_flight_witness:
  "isSubmitting (fst (submitOrder_start webEnv espressoOnly)) \<and>
   submitOrder_start webEnv (fst (submitOrder_start webEnv espressoOnly)) =
     (fst (submitOrder_start webEnv espressoOnly), None) \<and>
   length (snd (submitTwice webEnv espressoOnly)) = 1"
proof -
  have l: "orderLines (cart espressoOnly) \<noteq> []"
    by (simp add: espressoOnly_def updateCart_def initialState_def espresso_def truthy_def)
  have i: "\<not> isSubmitting espressoOnly"
    by (simp add: espressoOnly_def updateCart_def initialState_def espresso_def truthy_def)
  have s: "isSubmitting (fst (submitOrder_start webEnv espressoOnly))"
    using l i by (simp add: submitOrder_start_def)
  from submitOrder_noop_while_in_flight [of "fst (submitOrder_start webEnv espressoOnly)" webEnv] s
    submitOrder_noop_while_in_flight [of espressoOnly webEnv] l i
  show ?thesis by simp
qed

section \<open>Store selection: the active category\<close>

lemma set_insertBy: "set (insertBy cmp x xs) = insert x (set xs)"
  by (induction xs) auto

lemma set_sortBy: "set (sortBy cmp xs) = set xs"
  by (induction xs) (auto simp: set_insertBy)

lemma sortBy_Nil_iff: "sortBy cmp xs = [] \<longleftrightarrow> xs = []"
  using set_sortBy [of cmp xs] by (metis set_empty)

lemma hd_insertBy: "hd (insertBy cmp x xs) = (if xs = [] \<or> cmp x (hd xs) \<le> 0 then x else hd xs)"
  by (cases xs) auto

lemma hd_sortBy_least:
  assumes tot: "\<forall>a b. cmp a b \<le> (0::int) \<or> cmp b a \<le> 0"
    and tr: "\<forall>a b c. cmp a b \<le> 0 \<longrightarrow> cmp b c \<le> 0 \<longrightarrow> cmp a c \<le> 0"
    and "xs \<noteq> []" and "y \<in> set xs"
  shows "cmp (hd (sortBy cmp xs)) y \<le> 0"
proof -
  have total: "\<And>a b. cmp a b \<le> 0 \<or> cmp b a \<le> 0" using tot by blast
  have trans: "\<And>a b c. cmp a b \<le> 0 \<Longrightarrow> cmp b c \<le> 0 \<Longrightarrow> cmp a c \<le> 0" using tr by blast
  have "xs \<noteq> [] \<Longrightarrow> y \<in> set xs \<Longrightarrow> cmp (hd (sortBy cmp xs)) y \<le> 0" for xs y
  proof (induction xs arbitrary: y)
    case Nil
    then show ?case by simp
  next
    case (Cons x xs)
    show ?case
    proof (cases "xs = []")
      case True
      with Cons.prems total [of x x] show ?thesis by simp
    next
      case False
      let ?h = "hd (sortBy cmp xs)"
      have ih: "\<And>z. z \<in> set xs \<Longrightarrow> cmp ?h z \<le> 0" using Cons.IH False by blast
      have ne: "sortBy cmp xs \<noteq> []" using False by (simp add: sortBy_Nil_iff)
      show ?thesis
      proof (cases "cmp x ?h \<le> 0")
        case True
        then have h: "hd (sortBy cmp (x # xs)) = x" by (simp add: hd_insertBy)
        show ?thesis
        proof (cases "y = x")
          case True
          with h total [of x x] show ?thesis by simp
        next
          case False
          with Cons.prems have "y \<in> set xs" by simp
          then have "cmp ?h y \<le> 0" by (rule ih)
          with True have "cmp x y \<le> 0" by (rule trans)
          with h show ?thesis by simp
        qed
      next
        case False
        then have h: "hd (sortBy cmp (x # xs)) = ?h" using ne by (simp add: hd_insertBy)
        show ?thesis
        proof (cases "y = x")
          case True
          from False total [of x ?h] have "cmp ?h x \<le> 0" by blast
          with h True show ?thesis by simp
        next
          case yx: False
          with Cons.prems have "y \<in> set xs" by simp
          then have "cmp ?h y \<le> 0" by (rule ih)
          with h show ?thesis by simp
        qed
      qed
    qed
  qed
  with assms(3,4) show ?thesis by blast
qed

lemma firstCategory_Nil: "firstCategory env [] = None"
  by (simp add: firstCategory_def)

lemma firstCategory_least:
  assumes total: "\<forall>a b. localeCompare env a b \<le> 0 \<or> localeCompare env b a \<le> 0"
    and trans: "\<forall>a b c. localeCompare env a b \<le> 0 \<and> localeCompare env b c \<le> 0
                  \<longrightarrow> localeCompare env a c \<le> 0"
    and ne: "m \<noteq> []"
  shows "\<exists>c \<in> snd ` set m. firstCategory env m = Some c \<and>
           (\<forall>c' \<in> snd ` set m. localeCompare env (category_name c) (category_name c') \<le> 0)"
proof -
  let ?cmp = "\<lambda>a b. localeCompare env (category_name a) (category_name b)"
  let ?xs = "map snd m"
  have xs: "?xs \<noteq> []" using ne by simp
  then have s: "sortBy ?cmp ?xs \<noteq> []" by (simp add: sortBy_Nil_iff)
  then obtain c rest where cr: "sortBy ?cmp ?xs = c # rest" by (cases "sortBy ?cmp ?xs") auto
  then have f: "firstCategory env m = Some c" by (simp add: firstCategory_def)
  have "c \<in> set (sortBy ?cmp ?xs)" using cr by simp
  then have mem: "c \<in> snd ` set m" by (simp add: set_sortBy)
  have hd: "hd (sortBy ?cmp ?xs) = c" using cr by simp
  have t1: "\<forall>a b. ?cmp a b \<le> 0 \<or> ?cmp b a \<le> 0" using total by blast
  have t2: "\<forall>a b c. ?cmp a b \<le> 0 \<longrightarrow> ?cmp b c \<le> 0 \<longrightarrow> ?cmp a c \<le> 0" using trans by blast
  have "\<And>y. y \<in> set ?xs \<Longrightarrow> ?cmp (hd (sortBy ?cmp ?xs)) y \<le> 0"
    by (rule hd_sortBy_least [where cmp = ?cmp, OF t1 t2 xs])
  then have "\<forall>c' \<in> snd ` set m. localeCompare env (category_name c) (category_name c') \<le> 0"
    using hd by auto
  with f mem show ?thesis by blast
qed

lemma orElse_nonempty: "d \<noteq> [] \<Longrightarrow> orElse s d \<noteq> []"
  by (simp add: orElse_def split: option.splits)

lemma Map_set_nonempty: "Map_set k v m \<noteq> []"
  by (cases m) (auto split: if_splits)

lemma catInv_Map_set: "catInv m \<Longrightarrow> k \<noteq> [] \<Longrightarrow> category_id c = k \<Longrightarrow> catInv (Map_set k c m)"
  unfolding catInv_def using set_Map_set [of k c m] by auto

lemma groupStep_nonempty: "groupStep m node \<noteq> []"
  by (auto simp: groupStep_def Let_def Map_set_nonempty Map_has_def split: option.splits)

lemma catInv_groupStep: "catInv m \<Longrightarrow> catInv (groupStep m node)"
proof -
  assume inv: "catInv m"
  let ?k = "orElse (Option.bind (node_category node) rc_id) ''uncategorized''"
  let ?n = "orElse (Option.bind (node_category node) rc_name) ''Menu''"
  let ?m1 = "if \<not> Map_has m ?k
             then Map_set ?k \<lparr>category_id = ?k, category_name = ?n, products = []\<rparr> m else m"
  have k: "?k \<noteq> []" by (rule orElse_nonempty) simp
  have inv1: "catInv ?m1" using inv k by (simp add: catInv_Map_set)
  show "catInv (groupStep m node)"
  proof (cases "Map_get ?m1 ?k")
    case None
    then have "groupStep m node = ?m1" by (simp add: groupStep_def Let_def)
    with inv1 show ?thesis by simp
  next
    case (Some c)
    then have "(?k, c) \<in> set ?m1" by (rule Map_get_Some_mem)
    with inv1 have "category_id c = ?k" unfolding catInv_def by blast
    then have "catInv (Map_set ?k (c\<lparr>products := products c @ [toProduct node]\<rparr>) ?m1)"
      using inv1 k by (simp add: catInv_Map_set)
    moreover have "groupStep m node = Map_set ?k (c\<lparr>products := products c @ [toProduct node]\<rparr>) ?m1"
      using Some by (simp add: groupStep_def Let_def)
    ultimately show ?thesis by simp
  qed
qed

lemma catInv_groupLoop: "catInv m \<Longrightarrow> catInv (groupLoop m edges)"
  by (induction edges arbitrary: m) (auto simp: catInv_groupStep)

lemma groupLoop_nonempty: "m \<noteq> [] \<Longrightarrow> groupLoop m edges \<noteq> []"
  by (induction edges arbitrary: m) (auto simp: groupStep_nonempty)

lemma groupLoop_edges_nonempty: "edges \<noteq> [] \<Longrightarrow> groupLoop [] edges \<noteq> []"
  by (cases edges) (auto simp: groupLoop_nonempty groupStep_nonempty)

lemma selectStore_loaded:
  "graphQLRequest outcome = Inr data \<Longrightarrow>
   selectStore env store outcome st =
     st\<lparr>selectedStore := Some store, cart := [], currency := None,
        productEmptyMessage := ''This category has no products right now. Try another one.'',
        productsByCategory := groupLoop [] (case data of None \<Rightarrow> [] | Some es \<Rightarrow> es),
        selectedCategoryId :=
          orNull (map_option category_id
            (firstCategory env (groupLoop [] (case data of None \<Rightarrow> [] | Some es \<Rightarrow> es))))\<rparr>"
  by (simp add: selectStore_def loadStoreProducts_def resetCart_def Let_def)

lemma selectStore_failed:
  "graphQLRequest outcome = Inl m \<Longrightarrow>
   selectStore env store outcome st =
     st\<lparr>selectedStore := Some store, cart := [], currency := None,
        toast := \<lparr>message = (if m = [] then ''Unable to load products for this store.'' else m),
                  visible = True\<rparr>,
        productsByCategory := [], selectedCategoryId := None,
        productEmptyMessage := ''Unable to load products. Swipe down to retry.''\<rparr>"
  by (simp add: selectStore_def loadStoreProducts_def resetCart_def showToast_def orElse_def Let_def)

lemma asciiCompare_le: "asciiCompare a b \<le> 0 \<longleftrightarrow> map asciiLower a \<le> map asciiLower b"
  by (auto simp: asciiCompare_def)

lemma asciiCompare_total: "\<forall>a b. asciiCompare a b \<le> 0 \<or> asciiCompare b a \<le> 0"
  by (auto simp: asciiCompare_le)

lemma asciiCompare_trans:
  "\<forall>a b c. asciiCompare a b \<le> 0 \<and> asciiCompare b c \<le> 0 \<longrightarrow> asciiCompare a c \<le> 0"
  by (auto simp: asciiCompare_le)

lemma menu_catalog:
  "groupLoop [] [burger, cola] =
     [(''cat-food'', \<lparr>category_id = ''cat-food'', category_name = ''Food'', products = [toProduct burger]\<rparr>),
      (''cat-drinks'', \<lparr>category_id = ''cat-drinks'', category_name = ''drinks'', products = [toProduct cola]\<rparr>)]"
proof -
  have b: "node_category burger = Some \<lparr>rc_id = Some ''cat-food'', rc_name = Some ''Food''\<rparr>"
    by (simp add: burger_def)
  have c: "node_category cola = Some \<lparr>rc_id = Some ''cat-drinks'', rc_name = Some ''drinks''\<rparr>"
    by (simp add: cola_def)
  show ?thesis
    by (simp add: groupStep_def Map_has_def b c orElse_def Let_def)
qed

lemma Food_after_drinks: "asciiCompare ''Food'' ''drinks'' = 1"
  by (simp add: asciiCompare_def asciiLower_def)

lemma menu_first:
  "firstCategory webEnv (groupLoop [] [burger, cola]) =
     Some \<lparr>category_id = ''cat-drinks'', category_name = ''drinks'', products = [toProduct cola]\<rparr>"
  unfolding menu_catalog by (simp add: firstCategory_def webEnv_def Food_after_drinks)

text \<open>
  Claim C8. Let the comparison of names, \<^verbatim>\<open>localeCompare\<close> with \<^verbatim>\<open>sensitivity: "base"\<close>
  (which ignores case), be a total preorder. After \<^verbatim>\<open>selectStore\<close> with a catalog request
  that succeeds, the store is selected and the cart is empty; when the catalog has no
  products there are no categories and no active category; otherwise the active category
  is a category of the catalog whose name comes first under the comparison. When the
  request fails, the store is selected all the same, the catalog is empty, no category is
  active, the toast shows the message of the error (or \<^verbatim>\<open>"Unable to load products for this
  store."\<close>), and the empty-state message asks to retry.
\<close>

theorem selectStore_active_category:
  assumes total: "\<forall>a b. localeCompare env a b \<le> 0 \<or> localeCompare env b a \<le> 0"
    and trans: "\<forall>a b c. localeCompare env a b \<le> 0 \<and> localeCompare env b c \<le> 0
                  \<longrightarrow> localeCompare env a c \<le> 0"
  shows "(graphQLRequest outcome = Inr data \<longrightarrow>
            selectedStore (selectStore env store outcome st) = Some store \<and>
            cart (selectStore env store outcome st) = [] \<and>
            ((data = None \<or> data = Some []) \<longrightarrow>
               productsByCategory (selectStore env store outcome st) = [] \<and>
               selectedCategoryId (selectStore env store outcome st) = None) \<and>
            (data \<noteq> None \<and> data \<noteq> Some [] \<longrightarrow>
               (\<exists>c \<in> snd ` set (productsByCategory (selectStore env store outcome st)).
                  selectedCategoryId (selectStore env store outcome st) = Some (category_id c) \<and>
                  (\<forall>c' \<in> snd ` set (productsByCategory (selectStore env store outcome st)).
                     localeCompare env (category_name c) (category_name c') \<le> 0)))) \<and>
         (graphQLRequest outcome = Inl m \<longrightarrow>
            selectedStore (selectStore env store outcome st) = Some store \<and>
            productsByCategory (selectStore env store outcome st) = [] \<and>
            selectedCategoryId (selectStore env store outcome st) = None \<and>
            toast (selectStore env store outcome st) =
              \<lparr>message = (if m = [] then ''Unable to load products for this store.'' else m),
               visible = True\<rparr> \<and>
            productEmptyMessage (selectStore env store outcome st) =
              ''Unable to load products. Swipe down to retry.'')"
proof (intro conjI impI)
  assume ok: "graphQLRequest outcome = Inr data"
  note sel = selectStore_loaded [OF ok, of env store st]
  show "selectedStore (selectStore env store outcome st) = Some store" by (simp add: sel)
  show "cart (selectStore env store outcome st) = []" by (simp add: sel)
  {
    assume "data = None \<or> data = Some []"
    then have e: "(case data of None \<Rightarrow> [] | Some es \<Rightarrow> es) = []" by auto
    show "productsByCategory (selectStore env store outcome st) = []"
      by (simp add: sel e)
    show "selectedCategoryId (selectStore env store outcome st) = None"
      by (simp add: sel e firstCategory_Nil orNull_def)
  }
  {
    assume "data \<noteq> None \<and> data \<noteq> Some []"
    then obtain es where d: "data = Some es" and es: "es \<noteq> []" by auto
    let ?m = "groupLoop [] es"
    have ne: "?m \<noteq> []" using es by (rule groupLoop_edges_nonempty)
    have inv: "catInv ?m" by (rule catInv_groupLoop) (simp add: catInv_def)
    from firstCategory_least [OF total trans ne]
    obtain c where c: "c \<in> snd ` set ?m" and f: "firstCategory env ?m = Some c"
      and least: "\<forall>c' \<in> snd ` set ?m. localeCompare env (category_name c) (category_name c') \<le> 0"
      by blast
    from c inv have "category_id c \<noteq> []" unfolding catInv_def by auto
    then have "orNull (Some (category_id c)) = Some (category_id c)"
      by (simp add: orNull_def truthy_def)
    then have id: "selectedCategoryId (selectStore env store outcome st) = Some (category_id c)"
      by (simp add: sel d f)
    have pm: "productsByCategory (selectStore env store outcome st) = ?m" by (simp add: sel d)
    show "\<exists>c \<in> snd ` set (productsByCategory (selectStore env store outcome st)).
            selectedCategoryId (selectStore env store outcome st) = Some (category_id c) \<and>
            (\<forall>c' \<in> snd ` set (productsByCategory (selectStore env store outcome st)).
               localeCompare env (category_name c) (category_name c') \<le> 0)"
      unfolding pm using c id least by blast
  }
next
  assume bad: "graphQLRequest outcome = Inl m"
  note sel = selectStore_failed [OF bad, of env store st]
  show "selectedStore (selectStore env store outcome st) = Some store" by (simp add: sel)
  show "productsByCategory (selectStore env store outcome st) = []" by (simp add: sel)
  show "selectedCategoryId (selectStore env store outcome st) = None" by (simp add: sel)
  show "toast (selectStore env store outcome st) =
          \<lparr>message = (if m = [] then ''Unable to load products for this store.'' else m),
           visible = True\<rparr>" by (simp add: sel)
  show "productEmptyMessage (selectStore env store outcome st) =
          ''Unable to load products. Swipe down to retry.''" by (simp add: sel)
qed

theorem selectStore_active_category_witness:
  "graphQLRequest (Payload [] (Some [burger, cola])) = Inr (Some [burger, cola]) \<and>
   map fst (productsByCategory (selectStore webEnv corner (Payload [] (Some [burger, cola])) initialState)) =
     [''cat-food'', ''cat-drinks''] \<and>
   selectedCategoryId (selectStore webEnv corner (Payload [] (Some [burger, cola])) initialState) =
     Some ''cat-drinks'' \<and>
   selectedStore (selectStore webEnv corner (Payload [] (Some [burger, cola])) initialState) = Some corner \<and>
   graphQLRequest (FetchRejected ''offline'' :: RawNode list FetchOutcome) = Inl ''offline'' \<and>
   selectedStore (selectStore webEnv corner (FetchRejected ''offline'') initialState) = Some corner \<and>
   selectedCategoryId (selectStore webEnv corner (FetchRejected ''offline'') initialState) = None \<and>
   toast (selectStore webEnv corner (FetchRejected ''offline'') initialState) =
     \<lparr>message = ''offline'', visible = True\<rparr>"
proof -
  have lc: "localeCompare webEnv = asciiCompare"
    by (simp add: webEnv_def)
  have total: "\<forall>a b. localeCompare webEnv a b \<le> 0 \<or> localeCompare webEnv b a \<le> 0"
    unfolding lc by (rule asciiCompare_total)
  have trans: "\<forall>a b c. localeCompare webEnv a b \<le> 0 \<and> localeCompare webEnv b c \<le> 0
      \<longrightarrow> localeCompare webEnv a c \<le> 0"
    unfolding lc by (rule asciiCompare_trans)
  have ok: "graphQLRequest (Payload [] (Some [burger, cola])) = Inr (Some [burger, cola])"
    by simp
  have bad: "graphQLRequest (FetchRejected ''offline'' :: RawNode list FetchOutcome) = Inl ''offline''"
    by simp
  have grouped:
    "map fst (productsByCategory (selectStore webEnv corner (Payload [] (Some [burger, cola])) initialState)) =
     [''cat-food'', ''cat-drinks'']"
    by (simp add: selectStore_loaded [OF ok] menu_catalog del: groupLoop.simps)
  have first: "selectedCategoryId (selectStore webEnv corner (Payload [] (Some [burger, cola])) initialState) =
     Some ''cat-drinks''"
    by (simp add: selectStore_loaded [OF ok] menu_first orNull_def truthy_def del: groupLoop.simps)
  have a: "selectedStore (selectStore webEnv corner (Payload [] (Some [burger, cola])) initialState) = Some corner"
    using selectStore_active_category
            [OF total trans, of "Payload [] (Some [burger, cola])" "Some [burger, cola]" corner initialState]
    by (simp del: groupLoop.simps)
  have b: "selectedStore (selectStore webEnv corner (FetchRejected ''offline'') initialState) = Some corner \<and>
   selectedCategoryId (selectStore webEnv corner (FetchRejected ''offline'') initialState) = None \<and>
   toast (selectStore webEnv corner (FetchRejected ''offline'') initialState) =
     \<lparr>message = ''offline'', visible = True\<rparr>"
    using selectStore_active_category
            [OF total trans, of "FetchRejected ''offline''" _ corner initialState "''offline''"]
    by simp
  from ok bad grouped first a b show ?thesis by blast
qed

end
